theory Spec2Isabelle
  imports Main
begin

section \<open>Values of the Go program\<close>

text \<open>
  The development follows \<^verbatim>\<open>client.go\<close>. A \<^verbatim>\<open>[]byte\<close> is a list of
  characters (a character of HOL is a byte), a nil slice or nil pointer is \<open>None\<close>.
  A Go \<^verbatim>\<open>error\<close> is identified with the text its \<^verbatim>\<open>Error()\<close> method prints:
  \<^verbatim>\<open>errors.New\<close> and \<^verbatim>\<open>fmt.Errorf\<close> build one from a string, and the errors of
  the transport are values of the same type supplied by the environment.
\<close>

type_synonym bytes = string

datatype error = errorString string

datatype panic = NilDereference | NonPositiveInterval

text \<open>\<^verbatim>\<open>const VERSION\<close>, \<^verbatim>\<open>DEFAULT_HOST\<close>, \<^verbatim>\<open>DEFAULT_INTERVAL\<close> (a
  \<^verbatim>\<open>time.Duration\<close> counts nanoseconds) and \<^verbatim>\<open>userAgent\<close>.\<close>

definition VERSION :: string where
  "VERSION = ''1.0.0''"

definition DEFAULT_HOST :: string where
  "DEFAULT_HOST = ''https://api.viteset.com''"

definition DEFAULT_INTERVAL :: int where
  "DEFAULT_INTERVAL = 60 * 1000000000"

definition userAgent :: string where
  "userAgent = ''Viteset-Client-Go/'' @ VERSION"

definition StatusOK :: int where
  "StatusOK = 200"

definition StatusNotModified :: int where
  "StatusNotModified = 304"

text \<open>The verb \<^verbatim>\<open>%d\<close> of \<^verbatim>\<open>fmt\<close>: a signed decimal numeral.\<close>

fun decimal :: "nat \<Rightarrow> string" where
  "decimal n =
     (if n < 10 then [''0123456789'' ! n]
      else decimal (n div 10) @ [''0123456789'' ! (n mod 10)])"

declare decimal.simps [simp del]

definition fmt_d :: "int \<Rightarrow> string" where
  "fmt_d i = (if i < 0 then CHR ''-'' # decimal (nat (- i)) else decimal (nat i))"

text \<open>
  \<^verbatim>\<open>type Client struct\<close>. The field \<open>ticker\<close> is a pointer: the address of a
  ticker in the store of the runtime, or nil.
\<close>

record Client =
  Secret :: string
  Blob :: string
  Interval :: int
  Host :: string
  last :: "bytes option"
  ticker :: "nat option"

text \<open>\<^verbatim>\<open>type Update struct\<close>.\<close>

record Update =
  Value :: "bytes option"
  Error :: "error option"

section \<open>The HTTP exchange\<close>

text \<open>
  A request as \<^verbatim>\<open>fetch\<close> builds it and a response as it reads it. A header is the
  list of its (name, value) lines, in order; for a response these are the lines as the
  server wrote them. \<open>Body\<close> is what \<^verbatim>\<open>ioutil.ReadAll(resp.Body)\<close> returns.
\<close>

record Request =
  Method :: string
  URL :: string
  Header :: "(string \<times> string) list"

record Response =
  StatusCode :: int
  RespHeader :: "(string \<times> string) list"
  Body :: "error + bytes"

text \<open>
  net/http files every header line under the canonical form of its name and looks a
  name up by its canonical form (\<^verbatim>\<open>textproto.CanonicalMIMEHeaderKey\<close>): in a name
  made of token bytes only, the first letter and every letter after a hyphen are put in
  upper case and every other letter in lower case; any other name is left as it is.
\<close>

definition lower_letters :: string where
  "lower_letters = ''abcdefghijklmnopqrstuvwxyz''"

definition upper_letters :: string where
  "upper_letters = ''ABCDEFGHIJKLMNOPQRSTUVWXYZ''"

definition validHeaderFieldByte :: "char \<Rightarrow> bool" where
  "validHeaderFieldByte c =
     (c \<in> set (lower_letters @ upper_letters @ ''0123456789'' @ ''!#$%&*+-.^_`|~''
               @ [CHR 0x27]))"

definition to_upper :: "char \<Rightarrow> char" where
  "to_upper c = (case map_of (zip lower_letters upper_letters) c of None \<Rightarrow> c | Some u \<Rightarrow> u)"

definition to_lower :: "char \<Rightarrow> char" where
  "to_lower c = (case map_of (zip upper_letters lower_letters) c of None \<Rightarrow> c | Some l \<Rightarrow> l)"

fun canonical :: "bool \<Rightarrow> string \<Rightarrow> string" where
  "canonical upper [] = []"
| "canonical upper (c # cs) =
     (let c' = (if upper then to_upper c else to_lower c)
      in c' # canonical (c' = CHR ''-'') cs)"

definition CanonicalMIMEHeaderKey :: "string \<Rightarrow> string" where
  "CanonicalMIMEHeaderKey s = (if list_all validHeaderFieldByte s then canonical True s else s)"

text \<open>
  \<^verbatim>\<open>Header.Add\<close> appends a line under the canonical name; \<^verbatim>\<open>Header.Get\<close> returns the
  value of the first line filed under the canonical form of the name asked for, or the
  empty string when there is none.
\<close>

definition Header_Add :: "(string \<times> string) list \<Rightarrow> string \<Rightarrow> string \<Rightarrow> (string \<times> string) list" where
  "Header_Add h k v = h @ [(CanonicalMIMEHeaderKey k, v)]"

definition Header_Get :: "(string \<times> string) list \<Rightarrow> string \<Rightarrow> string" where
  "Header_Get h k =
     (case find (\<lambda>(n, v). CanonicalMIMEHeaderKey n = CanonicalMIMEHeaderKey k) h of
        None \<Rightarrow> []
      | Some (n, v) \<Rightarrow> v)"

text \<open>
  The network at the time of one call of \<^verbatim>\<open>fetch\<close>: \<open>url_error\<close> is the error of
  \<^verbatim>\<open>http.NewRequest\<close> on a URL it cannot parse, \<open>Do\<close> is \<^verbatim>\<open>client.Do\<close>.
\<close>

record Net =
  url_error :: "string \<Rightarrow> error option"
  Do :: "Request \<Rightarrow> error + Response"

definition NewRequest :: "Net \<Rightarrow> string \<Rightarrow> string \<Rightarrow> error + Request" where
  "NewRequest net m url =
     (case url_error net url of
        Some e \<Rightarrow> Inl e
      | None \<Rightarrow> Inr \<lparr>Method = m, URL = url, Header = []\<rparr>)"

text \<open>The four results of \<^verbatim>\<open>fetch\<close>: \<^verbatim>\<open>(same bool, data []byte, etag *string, err error)\<close>.\<close>

record fetched =
  same :: bool
  data :: "bytes option"
  etag :: "string option"
  err :: "error option"

definition failed :: "error \<Rightarrow> fetched" where
  "failed e = \<lparr>same = False, data = None, etag = None, err = Some e\<rparr>"

text \<open>Lines 98 to 106 of \<^verbatim>\<open>fetch\<close>: the request that is handed to \<^verbatim>\<open>client.Do\<close>.\<close>

definition build_request :: "Client \<Rightarrow> string option \<Rightarrow> Net \<Rightarrow> error + Request" where
  "build_request c lastEtag net =
     (case NewRequest net ''GET'' (Host c @ ''/'' @ Blob c) of
        Inl e \<Rightarrow> Inl e
      | Inr req \<Rightarrow>
          (let req1 = req\<lparr>Header := Header_Add (Header req) ''User-Agent'' userAgent\<rparr>;
               req2 = req1\<lparr>Header := Header_Add (Header req1) ''Authorization''
                                        (''Bearer '' @ Secret c)\<rparr>
           in case lastEtag of
                None \<Rightarrow> Inr req2
              | Some t \<Rightarrow> Inr (req2\<lparr>Header := Header_Add (Header req2) ''If-None-Match'' t\<rparr>)))"

text \<open>Lines 115 to 123 of \<^verbatim>\<open>fetch\<close>: the response, once its body has been read.\<close>

definition status_error :: "int \<Rightarrow> bytes \<Rightarrow> error" where
  "status_error code body =
     errorString (''expected status code '' @ fmt_d StatusOK @ '' but got '' @ fmt_d code
                  @ '': `'' @ body @ ''`'')"

definition classify :: "Response \<Rightarrow> bytes \<Rightarrow> fetched" where
  "classify resp body =
     (if StatusCode resp = StatusNotModified then
        \<lparr>same = True, data = None, etag = None, err = None\<rparr>
      else if StatusCode resp \<noteq> StatusOK then
        failed (status_error (StatusCode resp) body)
      else
        \<lparr>same = False, data = Some body,
         etag = Some (Header_Get (RespHeader resp) ''ETag''), err = None\<rparr>)"

definition fetch :: "Client \<Rightarrow> string option \<Rightarrow> Net \<Rightarrow> fetched" where
  "fetch c lastEtag net =
     (case build_request c lastEtag net of
        Inl e \<Rightarrow> failed e
      | Inr req \<Rightarrow>
          (case Do net req of
             Inl e \<Rightarrow> failed e
           | Inr resp \<Rightarrow>
               (case Body resp of
                  Inl e \<Rightarrow> failed e
                | Inr body \<Rightarrow> classify resp body)))"

section \<open>The polling loop\<close>

text \<open>
  The variables the goroutine of \<^verbatim>\<open>Subscribe\<close> works on: the client \<^verbatim>\<open>c\<close>, its
  local \<^verbatim>\<open>lastEtag\<close>, and the channel \<^verbatim>\<open>ch\<close>, kept as the list of the Updates
  sent on it, oldest first.
\<close>

record poll =
  client :: Client
  lastEtag :: "string option"
  sent :: "Update list"

text \<open>
  One pass through the body of the \<^verbatim>\<open>for\<close> loop (lines 63 to 74), with \<open>net\<close> the
  network as this call of \<^verbatim>\<open>fetch\<close> finds it. The channel is unbuffered: a pass
  ends when its Update, if any, has been received.
\<close>

definition loop_body :: "Net \<Rightarrow> poll \<Rightarrow> poll" where
  "loop_body net s =
     (let r = fetch (client s) (lastEtag s) net in
      if err r \<noteq> None then
        s\<lparr>sent := sent s @ [\<lparr>Value = None, Error = err r\<rparr>]\<rparr>
      else if same r then
        s
      else
        s\<lparr>sent := sent s @ [\<lparr>Value = data r, Error = None\<rparr>],
          client := (client s)\<lparr>last := data r\<rparr>,
          lastEtag := etag r\<rparr>)"

text \<open>
  The loop has no exit. Between two passes it waits for the ticker, so a run is
  determined by the networks its successive fetches meet; \<open>poll_loop nets\<close> is the run
  up to the end of the pass that uses the last of \<open>nets\<close>.
\<close>

fun poll_loop :: "Net list \<Rightarrow> poll \<Rightarrow> poll" where
  "poll_loop [] s = s"
| "poll_loop (net # nets) s = poll_loop nets (loop_body net s)"

text \<open>The goroutine starts with \<^verbatim>\<open>lastEtag = nil\<close> and a fresh channel (lines 57, 58).\<close>

definition start :: "Client \<Rightarrow> poll" where
  "start c = \<lparr>client = c, lastEtag = None, sent = []\<rparr>"

text \<open>
  Observations of a run: the argument and the result of each call of \<^verbatim>\<open>fetch\<close>.
\<close>

fun fetch_calls :: "Net list \<Rightarrow> poll \<Rightarrow> (string option \<times> fetched) list" where
  "fetch_calls [] s = []"
| "fetch_calls (net # nets) s =
     (lastEtag s, fetch (client s) (lastEtag s) net) # fetch_calls nets (loop_body net s)"

text \<open>
  The three outcomes of a fetch in the reading order of the loop: an error first, then
  \<open>same\<close>, then a changed value with its validator.
\<close>

datatype FetchOutcome = Unchanged | Changed "bytes option" "string option" | Failed error

definition outcome :: "fetched \<Rightarrow> FetchOutcome" where
  "outcome r =
     (case err r of
        Some e \<Rightarrow> Failed e
      | None \<Rightarrow> if same r then Unchanged else Changed (data r) (etag r))"

definition outcomes :: "Net list \<Rightarrow> poll \<Rightarrow> FetchOutcome list" where
  "outcomes nets s = map (\<lambda>(t, r). outcome r) (fetch_calls nets s)"

definition validators :: "Net list \<Rightarrow> poll \<Rightarrow> string option list" where
  "validators nets s = map fst (fetch_calls nets s)"

section \<open>The client and the runtime\<close>

text \<open>
  What \<^verbatim>\<open>Subscribe\<close> and \<^verbatim>\<open>Cancel\<close> act on: the client \<^verbatim>\<open>c\<close>, the tickers made
  by \<^verbatim>\<open>time.NewTicker\<close> (a store, the address of a ticker is its index), the goroutines
  started, and for every channel made the Updates its reader has received.
\<close>

record Ticker =
  period :: int
  stopped :: bool

text \<open>
  Where a goroutine stands: inside \<^verbatim>\<open>fetch\<close> (line 63), blocked in the send of line
  66 or of line 71 (with the result whose \<open>data\<close> and \<open>etag\<close> lines 72 and 73 will
  store), about to evaluate \<^verbatim>\<open>c.ticker.C\<close> (line 75), or blocked receiving from the
  channel of the ticker at an address.
\<close>

datatype pc = Fetching | SendError error | SendValue fetched | AtTicker | Waiting nat

record goroutine =
  pc :: pc
  etag_var :: "string option"
  chan :: nat

record runtime =
  self :: Client
  tickers :: "Ticker list"
  goroutines :: "goroutine list"
  chans :: "Update list list"

definition Active :: "Client \<Rightarrow> bool" where
  "Active c = (ticker c \<noteq> None)"

text \<open>
  \<^verbatim>\<open>Subscribe\<close> returns the channel and the error. \<^verbatim>\<open>time.NewTicker\<close> panics on an
  interval that is not positive.
\<close>

definition Subscribe :: "runtime \<Rightarrow> panic + ((nat option \<times> error option) \<times> runtime)" where
  "Subscribe rt =
     (let c = self rt in
      if ticker c \<noteq> None then
        Inr ((None, Some (errorString ''cannot re-subscribe with a closed Client'')), rt)
      else if Blob c = [] then
        Inr ((None, Some (errorString ''missing blob name'')), rt)
      else if Secret c = [] then
        Inr ((None, Some (errorString ''missing secret'')), rt)
      else
        (let c1 = (if Host c = [] then c\<lparr>Host := DEFAULT_HOST\<rparr> else c);
             c2 = (if Interval c1 = 0 then c1\<lparr>Interval := DEFAULT_INTERVAL\<rparr> else c1);
             ch = length (chans rt)
         in if Interval c2 \<le> 0 then Inl NonPositiveInterval
            else
              Inr ((Some ch, None),
                   rt\<lparr>self := c2\<lparr>ticker := Some (length (tickers rt))\<rparr>,
                      tickers := tickers rt @ [\<lparr>period = Interval c2, stopped = False\<rparr>],
                      chans := chans rt @ [[]],
                      goroutines := goroutines rt
                        @ [\<lparr>pc = Fetching, etag_var = None, chan = ch\<rparr>]\<rparr>)))"

text \<open>\<^verbatim>\<open>Cancel\<close>: \<^verbatim>\<open>c.ticker.Stop()\<close> dereferences the pointer.\<close>

definition Stop :: "nat \<Rightarrow> Ticker list \<Rightarrow> Ticker list" where
  "Stop a ts = (if a < length ts then ts[a := (ts ! a)\<lparr>stopped := True\<rparr>] else ts)"

definition Cancel :: "runtime \<Rightarrow> panic + runtime" where
  "Cancel rt =
     (if Active (self rt) then
        (case ticker (self rt) of
           None \<Rightarrow> Inl NilDereference
         | Some a \<Rightarrow>
             Inr (rt\<lparr>tickers := Stop a (tickers rt), self := (self rt)\<lparr>ticker := None\<rparr>\<rparr>))
      else Inr rt)"

section \<open>The goroutine beside its caller\<close>

text \<open>
  The goroutine runs while the caller reads the channel and may call \<^verbatim>\<open>Cancel\<close>. An
  event is one move of one of them: the \<^verbatim>\<open>fetch\<close> of goroutine \<open>g\<close> returns, having
  met the network \<open>net\<close>; the reader receives the Update goroutine \<open>g\<close> is sending, and
  the goroutine goes on to line 75; the goroutine evaluates \<^verbatim>\<open>c.ticker.C\<close>; the ticker
  it waits for fires; the caller calls \<^verbatim>\<open>Cancel\<close>. An event that cannot happen in a
  state leaves it as it is. A stopped ticker never fires.
\<close>

datatype event =
  FetchReturns nat Net | Receive nat | ReadTicker nat | Tick nat | CallCancel

definition move :: "nat \<Rightarrow> pc \<Rightarrow> runtime \<Rightarrow> runtime" where
  "move g p rt = rt\<lparr>goroutines := (goroutines rt)[g := (goroutines rt ! g)\<lparr>pc := p\<rparr>]\<rparr>"

definition deliver :: "nat \<Rightarrow> Update \<Rightarrow> runtime \<Rightarrow> runtime" where
  "deliver n u rt =
     (if n < length (chans rt) then rt\<lparr>chans := (chans rt)[n := chans rt ! n @ [u]]\<rparr> else rt)"

definition step :: "event \<Rightarrow> runtime \<Rightarrow> panic + runtime" where
  "step ev rt =
     (case ev of
        CallCancel \<Rightarrow> Cancel rt
      | FetchReturns g net \<Rightarrow>
          (if g < length (goroutines rt) \<and> pc (goroutines rt ! g) = Fetching then
             (let r = fetch (self rt) (etag_var (goroutines rt ! g)) net in
              case err r of
                Some e \<Rightarrow> Inr (move g (SendError e) rt)
              | None \<Rightarrow> if same r then Inr (move g AtTicker rt)
                        else Inr (move g (SendValue r) rt))
           else Inr rt)
      | Receive g \<Rightarrow>
          (if g < length (goroutines rt) then
             (case pc (goroutines rt ! g) of
                SendError e \<Rightarrow>
                  Inr (move g AtTicker
                        (deliver (chan (goroutines rt ! g)) \<lparr>Value = None, Error = Some e\<rparr> rt))
              | SendValue r \<Rightarrow>
                  (let rt1 = deliver (chan (goroutines rt ! g)) \<lparr>Value = data r, Error = None\<rparr> rt;
                       rt2 = rt1\<lparr>self := (self rt1)\<lparr>last := data r\<rparr>\<rparr>;
                       rt3 = rt2\<lparr>goroutines :=
                                (goroutines rt2)[g := (goroutines rt2 ! g)\<lparr>etag_var := etag r\<rparr>]\<rparr>
                   in Inr (move g AtTicker rt3))
              | _ \<Rightarrow> Inr rt)
           else Inr rt)
      | ReadTicker g \<Rightarrow>
          (if g < length (goroutines rt) \<and> pc (goroutines rt ! g) = AtTicker then
             (case ticker (self rt) of
                None \<Rightarrow> Inl NilDereference
              | Some a \<Rightarrow> Inr (move g (Waiting a) rt))
           else Inr rt)
      | Tick g \<Rightarrow>
          (if g < length (goroutines rt) then
             (case pc (goroutines rt ! g) of
                Waiting a \<Rightarrow>
                  (if a < length (tickers rt) \<and> \<not> stopped (tickers rt ! a)
                   then Inr (move g Fetching rt) else Inr rt)
              | _ \<Rightarrow> Inr rt)
           else Inr rt))"

fun exec :: "event list \<Rightarrow> runtime \<Rightarrow> panic + runtime" where
  "exec [] rt = Inr rt"
| "exec (ev # evs) rt = (case step ev rt of Inl p \<Rightarrow> Inl p | Inr rt' \<Rightarrow> exec evs rt')"

section \<open>Example inputs\<close>

text \<open>
  A server that answers every request with the same status, header and body; a server
  that holds a body under a tag (sent in lower case, as over HTTP/2) and answers 304 to
  a request whose \<^verbatim>\<open>If-None-Match\<close> is that tag; a network on which
  \<^verbatim>\<open>client.Do\<close> fails; a client as an application fills it in.
\<close>

definition reply :: "int \<Rightarrow> (string \<times> string) list \<Rightarrow> bytes \<Rightarrow> Net" where
  "reply code h body =
     \<lparr>url_error = (\<lambda>url. None),
      Do = (\<lambda>req. Inr \<lparr>StatusCode = code, RespHeader = h, Body = Inr body\<rparr>)\<rparr>"

definition conditional :: "string \<Rightarrow> bytes \<Rightarrow> Net" where
  "conditional tag body =
     \<lparr>url_error = (\<lambda>url. None),
      Do = (\<lambda>req. if map_of (Header req) ''If-None-Match'' = Some tag
                  then Inr \<lparr>StatusCode = 304, RespHeader = [(''etag'', tag)], Body = Inr []\<rparr>
                  else Inr \<lparr>StatusCode = 200, RespHeader = [(''etag'', tag)],
                            Body = Inr body\<rparr>)\<rparr>"

definition unreachable :: "error \<Rightarrow> Net" where
  "unreachable e = \<lparr>url_error = (\<lambda>url. None), Do = (\<lambda>req. Inl e)\<rparr>"

definition app_client :: Client where
  "app_client =
     \<lparr>Secret = ''s3cr3t'', Blob = ''config'', Interval = 0, Host = [],
      last = None, ticker = None\<rparr>"

definition subscribed_client :: Client where
  "subscribed_client =
     \<lparr>Secret = ''s3cr3t'', Blob = ''config'', Interval = 60000000000,
      Host = ''https://api.viteset.com'', last = None, ticker = Some 0\<rparr>"

text \<open>The runtime before \<^verbatim>\<open>Subscribe\<close>, after it, after \<^verbatim>\<open>Cancel\<close>, and after a
  second \<^verbatim>\<open>Subscribe\<close>.\<close>

definition idle :: runtime where
  "idle = \<lparr>self = app_client, tickers = [], goroutines = [], chans = []\<rparr>"

definition live :: runtime where
  "live =
     \<lparr>self = subscribed_client,
      tickers = [\<lparr>period = 60000000000, stopped = False\<rparr>],
      goroutines = [\<lparr>pc = Fetching, etag_var = None, chan = 0\<rparr>],
      chans = [[]]\<rparr>"

definition canceled :: runtime where
  "canceled =
     \<lparr>self = subscribed_client\<lparr>ticker := None\<rparr>,
      tickers = [\<lparr>period = 60000000000, stopped = True\<rparr>],
      goroutines = [\<lparr>pc = Fetching, etag_var = None, chan = 0\<rparr>],
      chans = [[]]\<rparr>"

definition resubscribed :: runtime where
  "resubscribed =
     \<lparr>self = subscribed_client\<lparr>ticker := Some 1\<rparr>,
      tickers = [\<lparr>period = 60000000000, stopped = True\<rparr>,
                 \<lparr>period = 60000000000, stopped = False\<rparr>],
      goroutines = [\<lparr>pc = Fetching, etag_var = None, chan = 0\<rparr>,
                    \<lparr>pc = Fetching, etag_var = None, chan = 1\<rparr>],
      chans = [[], []]\<rparr>"

text \<open>The Updates one pass of the loop sends, by the outcome of its fetch (lines 64 to 71).\<close>

fun delivery :: "FetchOutcome \<Rightarrow> Update list" where
  "delivery Unchanged = []"
| "delivery (Failed e) = [\<lparr>Value = None, Error = Some e\<rparr>]"
| "delivery (Changed v t) = [\<lparr>Value = v, Error = None\<rparr>]"

text \<open>Six successive states of the network: a value, no change, a second value, a
  refused connection, no change, a third value.\<close>

definition six_nets :: "Net list" where
  "six_nets =
     [reply 200 [(''ETag'', ''1'')] ''A'', reply 304 [] [], reply 200 [(''ETag'', ''2'')] ''B'',
      unreachable (errorString ''connection refused''), reply 304 [] [],
      reply 200 [(''ETag'', ''3'')] ''C'']"

section \<open>The conditional fetch\<close>

lemma fmt_d_200: "fmt_d 200 = ''200''"
  by (simp add: fmt_d_def decimal.simps)

lemmas canonical_eval =
  CanonicalMIMEHeaderKey_def validHeaderFieldByte_def to_upper_def to_lower_def
  lower_letters_def upper_letters_def Let_def

lemma canonical_names:
  "CanonicalMIMEHeaderKey ''User-Agent'' = ''User-Agent''"
  "CanonicalMIMEHeaderKey ''Authorization'' = ''Authorization''"
  "CanonicalMIMEHeaderKey ''If-None-Match'' = ''If-None-Match''"
  "CanonicalMIMEHeaderKey ''ETag'' = ''Etag''"
  "CanonicalMIMEHeaderKey ''etag'' = ''Etag''"
  "CanonicalMIMEHeaderKey ''ETAG'' = ''Etag''"
  "CanonicalMIMEHeaderKey ''Content-Type'' = ''Content-Type''"
  "CanonicalMIMEHeaderKey ''content-length'' = ''Content-Length''"
  by (simp_all add: canonical_eval)

lemma Header_Get_ETag:
  "Header_Get h ''ETag'' =
     (case find (\<lambda>(n, v). CanonicalMIMEHeaderKey n = ''Etag'') h of
        None \<Rightarrow> []
      | Some (n, v) \<Rightarrow> v)"
  by (simp add: Header_Get_def canonical_names)

text \<open>The request \<^verbatim>\<open>fetch\<close> has built when it reaches \<^verbatim>\<open>client.Do\<close>.\<close>

lemma build_request_eq:
  "build_request c le net =
     (case url_error net (Host c @ ''/'' @ Blob c) of
        Some e \<Rightarrow> Inl e
      | None \<Rightarrow>
          Inr \<lparr>Method = ''GET'', URL = Host c @ ''/'' @ Blob c,
               Header = [(''User-Agent'', ''Viteset-Client-Go/1.0.0''),
                         (''Authorization'', ''Bearer '' @ Secret c)]
                        @ (case le of None \<Rightarrow> [] | Some t \<Rightarrow> [(''If-None-Match'', t)])\<rparr>)"
  by (simp add: build_request_def NewRequest_def Header_Add_def canonical_names
      userAgent_def VERSION_def Let_def split: option.split)

lemma build_request_reply:
  "build_request subscribed_client le (reply code h body) =
     Inr \<lparr>Method = ''GET'', URL = ''https://api.viteset.com/config'',
          Header = [(''User-Agent'', ''Viteset-Client-Go/1.0.0''),
                    (''Authorization'', ''Bearer s3cr3t'')]
                   @ (case le of None \<Rightarrow> [] | Some t \<Rightarrow> [(''If-None-Match'', t)])\<rparr>"
  by (simp add: build_request_eq reply_def subscribed_client_def)

text \<open>
  C4. When \<^verbatim>\<open>fetch\<close> has received a response and read its body: status 304 gives
  \<open>same\<close> with no data and no validator, whatever the body held; status 200 gives the
  whole body as data and as validator the value of the first header line of the
  response whose name is \<^verbatim>\<open>ETag\<close> in any spelling of upper and lower case (the
  empty string when the response has no such line); any other status gives an error
  whose text names the expected code 200, the code received and the body as it was
  read.
\<close>

theorem fetch_classifies_by_status:
  assumes "build_request c le net = Inr req"
    and "Do net req = Inr resp"
    and "Body resp = Inr body"
  shows "(StatusCode resp = 304 \<longrightarrow>
            fetch c le net = \<lparr>same = True, data = None, etag = None, err = None\<rparr>)
       \<and> (StatusCode resp = 200 \<longrightarrow>
            fetch c le net =
              \<lparr>same = False, data = Some body,
               etag = Some (case find (\<lambda>(n, v). CanonicalMIMEHeaderKey n = ''Etag'')
                                  (RespHeader resp) of
                              None \<Rightarrow> []
                            | Some (n, v) \<Rightarrow> v),
               err = None\<rparr>)
       \<and> (StatusCode resp \<noteq> 304 \<and> StatusCode resp \<noteq> 200 \<longrightarrow>
            fetch c le net =
              \<lparr>same = False, data = None, etag = None,
               err = Some (errorString (''expected status code 200 but got ''
                       @ fmt_d (StatusCode resp) @ '': `'' @ body @ ''`''))\<rparr>)"
proof -
  have n: "fmt_d 200 = ''200''"
    by (simp add: fmt_d_def decimal.simps)
  have k: "CanonicalMIMEHeaderKey ''ETag'' = ''Etag''"
    by (simp add: CanonicalMIMEHeaderKey_def validHeaderFieldByte_def to_upper_def
        to_lower_def lower_letters_def upper_letters_def Let_def)
  show ?thesis
    using assms
    by (simp add: fetch_def classify_def failed_def status_error_def n
        StatusOK_def StatusNotModified_def Header_Get_def k)
qed

text \<open>
  At four responses: a 304 with a body; a 200 whose header spells the name in lower
  case after another line and repeats it in another spelling (the first value is
  taken); a 200 without the header; a 500.
\<close>

theorem fetch_classifies_by_status_witness:
  "fetch subscribed_client (Some ''v1'') (reply 304 [(''ETag'', ''v1'')] ''ignored'')
     = \<lparr>same = True, data = None, etag = None, err = None\<rparr>
   \<and> fetch subscribed_client None
        (reply 200 [(''content-length'', ''8''), (''etag'', ''v1''), (''ETAG'', ''v2'')]
           ''{\"a\": 1}'')
     = \<lparr>same = False, data = Some ''{\"a\": 1}'', etag = Some ''v1'', err = None\<rparr>
   \<and> fetch subscribed_client None (reply 200 [(''Content-Type'', ''text/plain'')] ''A'')
     = \<lparr>same = False, data = Some ''A'', etag = Some [], err = None\<rparr>
   \<and> fetch subscribed_client None (reply 500 [] ''oops'')
     = \<lparr>same = False, data = None, etag = None,
        err = Some (errorString ''expected status code 200 but got 500: `oops`'')\<rparr>"
proof -
  let ?c = subscribed_client
  let ?h = "[(''content-length'', ''8''), (''etag'', ''v1''), (''ETAG'', ''v2'')]"
  have r: "build_request ?c le (reply code h body) =
      Inr \<lparr>Method = ''GET'', URL = ''https://api.viteset.com/config'',
           Header = [(''User-Agent'', ''Viteset-Client-Go/1.0.0''),
                     (''Authorization'', ''Bearer s3cr3t'')]
                    @ (case le of None \<Rightarrow> [] | Some t \<Rightarrow> [(''If-None-Match'', t)])\<rparr>"
    for le code h body
    by (simp add: build_request_def NewRequest_def Header_Add_def reply_def
        subscribed_client_def userAgent_def VERSION_def CanonicalMIMEHeaderKey_def
        validHeaderFieldByte_def to_upper_def to_lower_def lower_letters_def
        upper_letters_def Let_def split: option.split)
  have d: "Do (reply code h body) req = Inr \<lparr>StatusCode = code, RespHeader = h, Body = Inr body\<rparr>"
    for code h body req
    by (simp add: reply_def)
  have b: "Body \<lparr>StatusCode = code, RespHeader = h, Body = Inr body\<rparr> = Inr body"
    for code h and body :: bytes
    by simp
  have n: "fmt_d 200 = ''200''" "fmt_d 500 = ''500''"
    by (simp_all add: fmt_d_def decimal.simps)
  have g: "Header_Get ?h ''ETag'' = ''v1''"
    "Header_Get [(''Content-Type'', ''text/plain'')] ''ETag'' = []"
    by (simp_all add: Header_Get_def CanonicalMIMEHeaderKey_def validHeaderFieldByte_def
        to_upper_def to_lower_def lower_letters_def upper_letters_def Let_def)
  have w1: "fetch ?c (Some ''v1'') (reply 304 [(''ETag'', ''v1'')] ''ignored'')
      = \<lparr>same = True, data = None, etag = None, err = None\<rparr>"
    by (simp add: fetch_def r d classify_def StatusNotModified_def)
  have w2: "fetch ?c None (reply 200 ?h ''{\"a\": 1}'')
      = \<lparr>same = False, data = Some ''{\"a\": 1}'', etag = Some ''v1'', err = None\<rparr>"
    by (simp add: fetch_def r d classify_def StatusNotModified_def StatusOK_def g)
  have w3: "fetch ?c None (reply 200 [(''Content-Type'', ''text/plain'')] ''A'')
      = \<lparr>same = False, data = Some ''A'', etag = Some [], err = None\<rparr>"
    by (simp add: fetch_def r d classify_def StatusNotModified_def StatusOK_def g)
  have w4: "fetch ?c None (reply 500 [] ''oops'')
      = \<lparr>same = False, data = None, etag = None,
         err = Some (errorString ''expected status code 200 but got 500: `oops`'')\<rparr>"
    by (simp add: fetch_def r d classify_def StatusNotModified_def StatusOK_def failed_def
        status_error_def n)
  show ?thesis
    using fetch_classifies_by_status
        [OF r [of "Some ''v1''" 304 "[(''ETag'', ''v1'')]" "''ignored''"] d b]
      fetch_classifies_by_status [OF r [of None 200 ?h "''{\"a\": 1}''"] d b]
      fetch_classifies_by_status
        [OF r [of None 200 "[(''Content-Type'', ''text/plain'')]" "''A''"] d b]
      fetch_classifies_by_status [OF r [of None 500 "[]" "''oops''"] d b]
      w1 w2 w3 w4
    by simp
qed

lemma Do_reply:
  "Do (reply code h body) req = Inr \<lparr>StatusCode = code, RespHeader = h, Body = Inr body\<rparr>"
  by (simp add: reply_def)

lemma fetch_reply:
  "fetch subscribed_client le (reply code h body) =
     (if code = 304 then \<lparr>same = True, data = None, etag = None, err = None\<rparr>
      else if code \<noteq> 200 then failed (status_error code body)
      else \<lparr>same = False, data = Some body, etag = Some (Header_Get h ''ETag''), err = None\<rparr>)"
  by (simp add: fetch_def build_request_reply classify_def Do_reply StatusOK_def
      StatusNotModified_def)

lemma fetch_unreachable: "fetch subscribed_client le (unreachable e) = failed e"
  by (simp add: fetch_def build_request_def NewRequest_def unreachable_def Let_def
      split: option.split)

text \<open>\<^verbatim>\<open>fetch\<close> reads the host, the blob name and the secret of the client, not its
  cached value.\<close>

lemma build_request_last: "build_request (c\<lparr>last := v\<rparr>) le net = build_request c le net"
  by (simp add: build_request_def Let_def split: sum.split option.split)

lemma fetch_last: "fetch (c\<lparr>last := v\<rparr>) le net = fetch c le net"
  by (simp add: fetch_def build_request_last)

section \<open>One pass of the polling loop\<close>

lemma loop_body_outcome:
  "loop_body net s =
     (case outcome (fetch (client s) (lastEtag s) net) of
        Unchanged \<Rightarrow> s
      | Failed e \<Rightarrow> s\<lparr>sent := sent s @ [\<lparr>Value = None, Error = Some e\<rparr>]\<rparr>
      | Changed v t \<Rightarrow>
          s\<lparr>sent := sent s @ [\<lparr>Value = v, Error = None\<rparr>],
            client := (client s)\<lparr>last := v\<rparr>, lastEtag := t\<rparr>)"
  by (auto simp: loop_body_def outcome_def Let_def split: option.splits)

text \<open>
  C6. A pass whose fetch reports no change sends nothing and leaves the client (so its
  cached value) and the cached validator as they were; a pass whose fetch fails sends
  one Update carrying the error and leaves both as they were; hence a pass after which
  the cached value or the cached validator differs had a fetch that reported a change.
\<close>

theorem tick_frame:
  "(outcome (fetch (client s) (lastEtag s) net) = Unchanged \<longrightarrow>
      sent (loop_body net s) = sent s
      \<and> client (loop_body net s) = client s
      \<and> lastEtag (loop_body net s) = lastEtag s)
   \<and> (outcome (fetch (client s) (lastEtag s) net) = Failed e \<longrightarrow>
      sent (loop_body net s) = sent s @ [\<lparr>Value = None, Error = Some e\<rparr>]
      \<and> client (loop_body net s) = client s
      \<and> lastEtag (loop_body net s) = lastEtag s)
   \<and> (last (client (loop_body net s)) \<noteq> last (client s)
        \<or> lastEtag (loop_body net s) \<noteq> lastEtag s \<longrightarrow>
      (\<exists>v t. outcome (fetch (client s) (lastEtag s) net) = Changed v t))"
  by (cases "outcome (fetch (client s) (lastEtag s) net)") (simp_all add: loop_body_outcome)

theorem tick_frame_witness:
  "outcome (fetch subscribed_client (Some ''1'') (reply 304 [] [])) = Unchanged
   \<and> loop_body (reply 304 [] [])
        \<lparr>client = subscribed_client\<lparr>last := Some ''A''\<rparr>, lastEtag = Some ''1'', sent = []\<rparr>
      = \<lparr>client = subscribed_client\<lparr>last := Some ''A''\<rparr>, lastEtag = Some ''1'', sent = []\<rparr>
   \<and> outcome (fetch subscribed_client (Some ''1'') (unreachable (errorString ''timeout'')))
      = Failed (errorString ''timeout'')
   \<and> loop_body (unreachable (errorString ''timeout''))
        \<lparr>client = subscribed_client\<lparr>last := Some ''A''\<rparr>, lastEtag = Some ''1'', sent = []\<rparr>
      = \<lparr>client = subscribed_client\<lparr>last := Some ''A''\<rparr>, lastEtag = Some ''1'',
         sent = [\<lparr>Value = None, Error = Some (errorString ''timeout'')\<rparr>]\<rparr>"
proof -
  let ?s = "\<lparr>client = subscribed_client\<lparr>last := Some ''A''\<rparr>, lastEtag = Some ''1'', sent = []\<rparr>"
  have u: "outcome (fetch subscribed_client (Some ''1'') (reply 304 [] [])) = Unchanged"
    by (simp add: fetch_reply outcome_def)
  have f: "outcome (fetch subscribed_client (Some ''1'') (unreachable (errorString ''timeout'')))
      = Failed (errorString ''timeout'')"
    by (simp add: fetch_unreachable outcome_def failed_def)
  show ?thesis
    using tick_frame [of ?s "reply 304 [] []" undefined]
      tick_frame [of ?s "unreachable (errorString ''timeout'')" "errorString ''timeout''"]
    by (simp add: fetch_last u f)
qed

section \<open>Runs of the polling loop\<close>

lemma sent_loop_body:
  "sent (loop_body net s) = sent s @ delivery (outcome (fetch (client s) (lastEtag s) net))"
  by (cases "outcome (fetch (client s) (lastEtag s) net)") (simp_all add: loop_body_outcome)

lemma outcomes_Cons:
  "outcomes (net # nets) s =
     outcome (fetch (client s) (lastEtag s) net) # outcomes nets (loop_body net s)"
  by (simp add: outcomes_def)

lemma validators_Cons:
  "validators (net # nets) s = lastEtag s # validators nets (loop_body net s)"
  by (simp add: validators_def)

lemma length_outcomes: "length (outcomes nets s) = length nets"
  by (induction nets arbitrary: s) (simp_all add: outcomes_def)

lemma length_validators: "length (validators nets s) = length nets"
  by (induction nets arbitrary: s) (simp_all add: validators_def)

text \<open>What a run has sent is what each of its passes sent, in the order of the passes.\<close>

lemma sent_poll_loop:
  "sent (poll_loop nets s) = sent s @ concat (map delivery (outcomes nets s))"
proof (induction nets arbitrary: s)
  case Nil
  show ?case by (simp add: outcomes_def)
next
  case (Cons net nets)
  show ?case
    by (simp add: Cons.IH outcomes_Cons sent_loop_body)
qed

lemma outcome_reply_200:
  "outcome (fetch subscribed_client le (reply 200 h body)) =
     Changed (Some body) (Some (Header_Get h ''ETag''))"
  by (simp add: fetch_reply outcome_def)

lemma outcome_reply_304: "outcome (fetch subscribed_client le (reply 304 h body)) = Unchanged"
  by (simp add: fetch_reply outcome_def)

lemma outcome_unreachable: "outcome (fetch subscribed_client le (unreachable e)) = Failed e"
  by (simp add: fetch_unreachable outcome_def failed_def)

lemma outcomes_six_nets:
  "outcomes six_nets (start subscribed_client) =
     [Changed (Some ''A'') (Some ''1''), Unchanged, Changed (Some ''B'') (Some ''2''),
      Failed (errorString ''connection refused''), Unchanged,
      Changed (Some ''C'') (Some ''3'')]"
  by (simp add: six_nets_def outcomes_Cons start_def loop_body_outcome fetch_last
      outcome_reply_200 outcome_reply_304 outcome_unreachable Header_Get_ETag canonical_names outcomes_def)

text \<open>
  C1, as the code has it. In every run from a fresh subscription whose successive
  fetch outcomes are Changed A, Unchanged, Changed B, Failed e, Unchanged, Changed C,
  the Updates sent on the channel are, in this order, the value A, the value B, the
  error e and the value C: every changed value is sent, B as well.
\<close>

theorem six_outcomes_deliver_four:
  assumes "outcomes nets (start c) =
             [Changed (Some A) ta, Unchanged, Changed (Some B) tb, Failed e, Unchanged,
              Changed (Some C) tc]"
  shows "sent (poll_loop nets (start c)) =
           [\<lparr>Value = Some A, Error = None\<rparr>, \<lparr>Value = Some B, Error = None\<rparr>,
            \<lparr>Value = None, Error = Some e\<rparr>, \<lparr>Value = Some C, Error = None\<rparr>]"
proof -
  have "sent (start c) = []"
    by (simp add: start_def)
  moreover have "concat (map delivery (outcomes nets (start c))) =
      [\<lparr>Value = Some A, Error = None\<rparr>, \<lparr>Value = Some B, Error = None\<rparr>,
       \<lparr>Value = None, Error = Some e\<rparr>, \<lparr>Value = Some C, Error = None\<rparr>]"
    by (subst assms) simp
  ultimately show ?thesis
    by (simp only: sent_poll_loop append_Nil)
qed

theorem six_outcomes_deliver_four_witness:
  "outcomes six_nets (start subscribed_client) =
     [Changed (Some ''A'') (Some ''1''), Unchanged, Changed (Some ''B'') (Some ''2''),
      Failed (errorString ''connection refused''), Unchanged,
      Changed (Some ''C'') (Some ''3'')]
   \<and> sent (poll_loop six_nets (start subscribed_client)) =
     [\<lparr>Value = Some ''A'', Error = None\<rparr>, \<lparr>Value = Some ''B'', Error = None\<rparr>,
      \<lparr>Value = None, Error = Some (errorString ''connection refused'')\<rparr>,
      \<lparr>Value = Some ''C'', Error = None\<rparr>]"
  using six_outcomes_deliver_four [OF outcomes_six_nets] outcomes_six_nets
  by simp

text \<open>
  The claim as the specification words it fails on the six networks above: their
  outcomes are the six of the claim, and what is sent is not the value A, the error
  and the value C.
\<close>

theorem six_outcomes_counterexample:
  "outcomes six_nets (start subscribed_client) =
     [Changed (Some ''A'') (Some ''1''), Unchanged, Changed (Some ''B'') (Some ''2''),
      Failed (errorString ''connection refused''), Unchanged,
      Changed (Some ''C'') (Some ''3'')]
   \<and> sent (poll_loop six_nets (start subscribed_client)) \<noteq>
     [\<lparr>Value = Some ''A'', Error = None\<rparr>,
      \<lparr>Value = None, Error = Some (errorString ''connection refused'')\<rparr>,
      \<lparr>Value = Some ''C'', Error = None\<rparr>]"
proof -
  have "sent (poll_loop six_nets (start subscribed_client)) =
      sent (start subscribed_client) @ concat (map delivery (outcomes six_nets (start subscribed_client)))"
    by (rule sent_poll_loop)
  then have "length (sent (poll_loop six_nets (start subscribed_client))) = 4"
    by (simp only: outcomes_six_nets) (simp add: start_def)
  then have "sent (poll_loop six_nets (start subscribed_client)) \<noteq>
     [\<lparr>Value = Some ''A'', Error = None\<rparr>,
      \<lparr>Value = None, Error = Some (errorString ''connection refused'')\<rparr>,
      \<lparr>Value = Some ''C'', Error = None\<rparr>]"
    by auto
  then show ?thesis
    by (simp only: outcomes_six_nets simp_thms)
qed

lemma lastEtag_loop_body:
  "lastEtag (loop_body net s) =
     (case outcome (fetch (client s) (lastEtag s) net) of
        Changed v t \<Rightarrow> t
      | _ \<Rightarrow> lastEtag s)"
  by (cases "outcome (fetch (client s) (lastEtag s) net)") (simp_all add: loop_body_outcome)

lemma next_validator:
  "Suc i < length nets \<Longrightarrow> outcomes nets s ! i = Changed v t \<Longrightarrow>
     validators nets s ! Suc i = t"
proof (induction nets arbitrary: s i)
  case Nil
  then show ?case by simp
next
  case (Cons net nets)
  show ?case
  proof (cases i)
    case 0
    with Cons.prems obtain net' nets' where n: "nets = net' # nets'"
      by (cases nets) auto
    from Cons.prems 0 have "outcome (fetch (client s) (lastEtag s) net) = Changed v t"
      by (simp add: outcomes_Cons)
    then show ?thesis
      by (simp add: 0 n validators_Cons lastEtag_loop_body)
  next
    case (Suc k)
    with Cons.prems have "Suc k < length nets"
      and "outcomes nets (loop_body net s) ! k = Changed v t"
      by (simp_all add: outcomes_Cons)
    then have "validators nets (loop_body net s) ! Suc k = t"
      by (rule Cons.IH)
    then show ?thesis
      by (simp add: Suc validators_Cons)
  qed
qed

lemma fetch_changed_etag:
  "outcome (fetch c le net) = Changed v t \<Longrightarrow> t \<noteq> None"
  by (auto simp: fetch_def classify_def failed_def outcome_def
      split: sum.splits option.splits if_splits)

lemma validator_exists:
  "i < length nets \<Longrightarrow>
     (validators nets s ! i \<noteq> None) =
     (lastEtag s \<noteq> None \<or> (\<exists>j<i. \<exists>v t. outcomes nets s ! j = Changed v t))"
proof (induction nets arbitrary: s i)
  case Nil
  then show ?case by simp
next
  case (Cons net nets)
  show ?case
  proof (cases i)
    case 0
    then show ?thesis
      by (simp add: validators_Cons)
  next
    case (Suc k)
    with Cons.prems have k: "k < length nets"
      by simp
    have e: "(lastEtag (loop_body net s) \<noteq> None) =
        (lastEtag s \<noteq> None \<or> (\<exists>v t. outcome (fetch (client s) (lastEtag s) net) = Changed v t))"
      by (cases "outcome (fetch (client s) (lastEtag s) net)")
        (auto simp: lastEtag_loop_body dest: fetch_changed_etag)
    have "(validators (net # nets) s ! i \<noteq> None) =
        (validators nets (loop_body net s) ! k \<noteq> None)"
      by (simp only: Suc validators_Cons nth_Cons_Suc)
    also have "\<dots> = (lastEtag (loop_body net s) \<noteq> None
        \<or> (\<exists>j<k. \<exists>v t. outcomes nets (loop_body net s) ! j = Changed v t))"
      by (rule Cons.IH [OF k])
    also have "\<dots> = (lastEtag s \<noteq> None
        \<or> (\<exists>v t. outcome (fetch (client s) (lastEtag s) net) = Changed v t)
        \<or> (\<exists>j<k. \<exists>v t. outcomes nets (loop_body net s) ! j = Changed v t))"
      by (simp only: e disj_assoc)
    also have "\<dots> = (lastEtag s \<noteq> None
        \<or> (\<exists>j<Suc k. \<exists>v t. outcomes (net # nets) s ! j = Changed v t))"
      by (simp only: Ex_less_Suc2 outcomes_Cons nth_Cons_0 nth_Cons_Suc)
    finally show ?thesis
      by (simp only: Suc)
  qed
qed

text \<open>
  C5. Every pass of the loop calls \<^verbatim>\<open>fetch\<close> with the validator cached so far, and a
  pass whose fetch reports a change with validator \<open>t\<close> caches \<open>t\<close> for the next pass.
  The request \<^verbatim>\<open>fetch\<close> hands to \<^verbatim>\<open>client.Do\<close> has the user agent and the bearer
  secret, and an \<^verbatim>\<open>If-None-Match\<close> line exactly when \<^verbatim>\<open>fetch\<close> was called with a
  validator, with that validator as value. In a run from a fresh subscription: when
  the fetch of pass \<open>i\<close> reports a change with validator \<open>t\<close>, the fetch of pass
  \<open>i + 1\<close> is called with \<open>t\<close>; a fetch is called with a validator exactly when an
  earlier pass reported a change; the first fetch is called with none.
\<close>

theorem validator_round_trip:
  "loop_body net s =
     (case outcome (fetch (client s) (lastEtag s) net) of
        Unchanged \<Rightarrow> s
      | Failed e \<Rightarrow> s\<lparr>sent := sent s @ [\<lparr>Value = None, Error = Some e\<rparr>]\<rparr>
      | Changed v t \<Rightarrow>
          s\<lparr>sent := sent s @ [\<lparr>Value = v, Error = None\<rparr>],
            client := (client s)\<lparr>last := v\<rparr>, lastEtag := t\<rparr>)
   \<and> (url_error net (Host c @ ''/'' @ Blob c) = None \<longrightarrow>
        fetch c le net =
          (case Do net
                  \<lparr>Method = ''GET'', URL = Host c @ ''/'' @ Blob c,
                   Header = [(''User-Agent'', ''Viteset-Client-Go/1.0.0''),
                             (''Authorization'', ''Bearer '' @ Secret c)]
                            @ (case le of None \<Rightarrow> []
                               | Some t \<Rightarrow> [(''If-None-Match'', t)])\<rparr> of
             Inl e \<Rightarrow> failed e
           | Inr resp \<Rightarrow>
               (case Body resp of Inl e \<Rightarrow> failed e | Inr body \<Rightarrow> classify resp body)))
   \<and> (Suc i < length nets \<longrightarrow> outcomes nets (start c) ! i = Changed v t \<longrightarrow>
        validators nets (start c) ! Suc i = t)
   \<and> (i < length nets \<longrightarrow>
        (validators nets (start c) ! i \<noteq> None) =
        (\<exists>j<i. \<exists>v' t'. outcomes nets (start c) ! j = Changed v' t'))
   \<and> (0 < length nets \<longrightarrow> validators nets (start c) ! 0 = None)"
proof -
  have n: "lastEtag (start c) = None"
    by (simp add: start_def)
  have p: "loop_body net s =
     (case outcome (fetch (client s) (lastEtag s) net) of
        Unchanged \<Rightarrow> s
      | Failed e \<Rightarrow> s\<lparr>sent := sent s @ [\<lparr>Value = None, Error = Some e\<rparr>]\<rparr>
      | Changed v t \<Rightarrow>
          s\<lparr>sent := sent s @ [\<lparr>Value = v, Error = None\<rparr>],
            client := (client s)\<lparr>last := v\<rparr>, lastEtag := t\<rparr>)"
    by (auto simp: loop_body_def outcome_def Let_def split: option.splits)
  have q: "url_error net (Host c @ ''/'' @ Blob c) = None \<longrightarrow>
        fetch c le net =
          (case Do net
                  \<lparr>Method = ''GET'', URL = Host c @ ''/'' @ Blob c,
                   Header = [(''User-Agent'', ''Viteset-Client-Go/1.0.0''),
                             (''Authorization'', ''Bearer '' @ Secret c)]
                            @ (case le of None \<Rightarrow> []
                               | Some t \<Rightarrow> [(''If-None-Match'', t)])\<rparr> of
             Inl e \<Rightarrow> failed e
           | Inr resp \<Rightarrow>
               (case Body resp of Inl e \<Rightarrow> failed e | Inr body \<Rightarrow> classify resp body))"
    by (simp add: fetch_def build_request_def NewRequest_def Header_Add_def userAgent_def
        VERSION_def CanonicalMIMEHeaderKey_def validHeaderFieldByte_def to_upper_def
        to_lower_def lower_letters_def upper_letters_def Let_def split: option.split)
  have a: "Suc i < length nets \<longrightarrow> outcomes nets (start c) ! i = Changed v t \<longrightarrow>
      validators nets (start c) ! Suc i = t"
    by (intro impI) (rule next_validator)
  have b: "i < length nets \<longrightarrow>
      (validators nets (start c) ! i \<noteq> None) =
      (\<exists>j<i. \<exists>v' t'. outcomes nets (start c) ! j = Changed v' t')"
    using validator_exists [of i nets "start c"] by (simp only: n simp_thms) blast
  have d: "0 < length nets \<longrightarrow> validators nets (start c) ! 0 = None"
    by (cases nets) (simp_all add: validators_Cons n)
  from p q a b d show ?thesis
    by (intro conjI)
qed

text \<open>
  Against a server that honours \<^verbatim>\<open>If-None-Match\<close>: it holds body A under tag 1 for
  two passes, then body B under tag 2 for two passes. The second and the fourth fetch
  are answered 304, which they are only because their requests carry the tag of the
  pass before.
\<close>

theorem validator_round_trip_witness:
  "fetch subscribed_client None (conditional ''1'' ''A'')
     = \<lparr>same = False, data = Some ''A'', etag = Some ''1'', err = None\<rparr>
   \<and> fetch subscribed_client (Some ''1'') (conditional ''1'' ''A'')
     = \<lparr>same = True, data = None, etag = None, err = None\<rparr>
   \<and> fetch subscribed_client (Some ''1'') (conditional ''2'' ''B'')
     = \<lparr>same = False, data = Some ''B'', etag = Some ''2'', err = None\<rparr>
   \<and> outcomes [conditional ''1'' ''A'', conditional ''1'' ''A'', conditional ''2'' ''B'',
                conditional ''2'' ''B''] (start subscribed_client)
     = [Changed (Some ''A'') (Some ''1''), Unchanged, Changed (Some ''B'') (Some ''2''),
        Unchanged]
   \<and> validators [conditional ''1'' ''A'', conditional ''1'' ''A'', conditional ''2'' ''B'',
                  conditional ''2'' ''B''] (start subscribed_client)
     = [None, Some ''1'', Some ''1'', Some ''2'']"
proof -
  let ?nets = "[conditional ''1'' ''A'', conditional ''1'' ''A'', conditional ''2'' ''B'',
                conditional ''2'' ''B'']"
  have u: "url_error (conditional tag body) url = None" for tag body url
    by (simp add: conditional_def)
  have f: "fetch subscribed_client le (conditional tag body) =
      (if le = Some tag then \<lparr>same = True, data = None, etag = None, err = None\<rparr>
       else \<lparr>same = False, data = Some body, etag = Some tag, err = None\<rparr>)" for le tag body
    by (cases le)
      (simp_all add: fetch_def build_request_def NewRequest_def Header_Add_def Header_Get_def
        conditional_def classify_def StatusOK_def StatusNotModified_def userAgent_def
        VERSION_def CanonicalMIMEHeaderKey_def validHeaderFieldByte_def to_upper_def
        to_lower_def lower_letters_def upper_letters_def Let_def)
  have os: "outcomes ?nets (start subscribed_client)
     = [Changed (Some ''A'') (Some ''1''), Unchanged, Changed (Some ''B'') (Some ''2''),
        Unchanged]"
    by (simp add: outcomes_def start_def loop_body_def Let_def fetch_last f outcome_def)
  have vs: "validators ?nets (start subscribed_client) = [None, Some ''1'', Some ''1'', Some ''2'']"
    by (simp add: validators_def start_def loop_body_def Let_def fetch_last f)
  show ?thesis
    using validator_round_trip
        [of "conditional ''1'' ''A''" "start subscribed_client" subscribed_client None 0 ?nets
          "Some ''A''" "Some ''1''"]
    by (simp add: u f os vs)
qed

section \<open>A server that always answers 200\<close>

lemma fetch_200:
  assumes "url_error net (Host c @ ''/'' @ Blob c) = None"
    and "\<And>req. \<exists>resp. Do net req = Inr resp \<and> StatusCode resp = 200 \<and> Body resp = Inr body"
  shows "\<exists>t. outcome (fetch c le net) = Changed (Some body) (Some t)"
proof -
  from assms(1) obtain req where r: "build_request c le net = Inr req"
    by (cases le) (simp_all add: build_request_def NewRequest_def Let_def)
  from assms(2) obtain resp where "Do net req = Inr resp" "StatusCode resp = 200"
    "Body resp = Inr body"
    by blast
  then show ?thesis
    by (simp add: fetch_def r classify_def outcome_def StatusOK_def StatusNotModified_def)
qed

lemma loop_body_host_blob:
  "Host (client (loop_body net s)) = Host (client s) \<and>
   Blob (client (loop_body net s)) = Blob (client s)"
  by (cases "outcome (fetch (client s) (lastEtag s) net)") (simp_all add: loop_body_outcome)

lemma sent_all_200:
  assumes "\<And>net. net \<in> set nets \<Longrightarrow> url_error net (Host (client s) @ ''/'' @ Blob (client s)) = None"
    and "\<And>net req. net \<in> set nets \<Longrightarrow>
          \<exists>resp. Do net req = Inr resp \<and> StatusCode resp = 200 \<and> Body resp = Inr body"
  shows "sent (poll_loop nets s) =
           sent s @ replicate (length nets) \<lparr>Value = Some body, Error = None\<rparr>"
  using assms
proof (induction nets arbitrary: s)
  case Nil
  show ?case by simp
next
  case (Cons net nets)
  from Cons.prems obtain t where
    o: "outcome (fetch (client s) (lastEtag s) net) = Changed (Some body) (Some t)"
    using fetch_200 [of net "client s" body "lastEtag s"] by auto
  have "sent (poll_loop nets (loop_body net s)) =
      sent (loop_body net s) @ replicate (length nets) \<lparr>Value = Some body, Error = None\<rparr>"
  proof (rule Cons.IH)
    fix n assume "n \<in> set nets"
    then have "n \<in> set (net # nets)" by simp
    then show "url_error n (Host (client (loop_body net s)) @ ''/''
        @ Blob (client (loop_body net s))) = None"
      by (simp only: loop_body_host_blob Cons.prems(1))
  next
    fix n req assume "n \<in> set nets"
    then have "n \<in> set (net # nets)" by simp
    then show "\<exists>resp. Do n req = Inr resp \<and> StatusCode resp = 200 \<and> Body resp = Inr body"
      by (rule Cons.prems(2))
  qed
  then show ?case
    by (simp add: sent_loop_body o)
qed

text \<open>
  C9. No pass compares the body with the cached value. When every network of a run
  answers any request with status 200 and the same body (as a server that ignores
  \<^verbatim>\<open>If-None-Match\<close> does), every fetch is classified as changed with that body, and
  the run sends the body once per pass; a single pass does so when the cached value
  already equals the body.
\<close>

theorem status_200_always_delivers:
  assumes "\<forall>net \<in> set nets. url_error net (Host (client s) @ ''/'' @ Blob (client s)) = None
             \<and> (\<forall>req. \<exists>resp. Do net req = Inr resp \<and> StatusCode resp = 200
                              \<and> Body resp = Inr body)"
  shows "sent (poll_loop nets s) =
           sent s @ replicate (length nets) \<lparr>Value = Some body, Error = None\<rparr>
       \<and> (\<forall>net \<in> set nets.
            (\<exists>t. outcome (fetch (client s) (lastEtag s) net) = Changed (Some body) (Some t))
            \<and> (last (client s) = Some body \<longrightarrow>
                 sent (loop_body net s) = sent s @ [\<lparr>Value = Some body, Error = None\<rparr>]))"
proof (intro conjI ballI)
  show "sent (poll_loop nets s) =
      sent s @ replicate (length nets) \<lparr>Value = Some body, Error = None\<rparr>"
    using assms by (intro sent_all_200) auto
next
  fix net assume "net \<in> set nets"
  with assms show "\<exists>t. outcome (fetch (client s) (lastEtag s) net) = Changed (Some body) (Some t)"
    by (intro fetch_200) auto
  then show "last (client s) = Some body \<longrightarrow>
      sent (loop_body net s) = sent s @ [\<lparr>Value = Some body, Error = None\<rparr>]"
    by (auto simp: sent_loop_body)
qed

theorem status_200_always_delivers_witness:
  "last (client \<lparr>client = subscribed_client\<lparr>last := Some ''A''\<rparr>, lastEtag = Some ''1'', sent = []\<rparr>)
     = Some ''A''
   \<and> sent (poll_loop [reply 200 [(''ETag'', ''1'')] ''A'', reply 200 [(''ETag'', ''1'')] ''A'',
                       reply 200 [(''ETag'', ''1'')] ''A'']
        \<lparr>client = subscribed_client\<lparr>last := Some ''A''\<rparr>, lastEtag = Some ''1'', sent = []\<rparr>)
     = [\<lparr>Value = Some ''A'', Error = None\<rparr>, \<lparr>Value = Some ''A'', Error = None\<rparr>,
        \<lparr>Value = Some ''A'', Error = None\<rparr>]"
proof -
  let ?s = "\<lparr>client = subscribed_client\<lparr>last := Some ''A''\<rparr>, lastEtag = Some ''1'', sent = []\<rparr>"
  let ?n = "reply 200 [(''ETag'', ''1'')] ''A''"
  have h: "\<forall>net \<in> set [?n, ?n, ?n].
      url_error net (Host (client ?s) @ ''/'' @ Blob (client ?s)) = None
      \<and> (\<forall>req. \<exists>resp. Do net req = Inr resp \<and> StatusCode resp = 200 \<and> Body resp = Inr ''A'')"
    by (simp add: reply_def)
  show ?thesis
    using status_200_always_delivers [OF h]
    by (simp add: numeral_3_eq_3)
qed

section \<open>Subscribe and Cancel\<close>

text \<open>
  C7. A call of \<^verbatim>\<open>Subscribe\<close> on a client whose blob name or secret is the empty
  string returns a nil channel and an error, without a panic, and leaves the runtime
  as it was: no ticker has been made and no goroutine started.
\<close>

theorem subscribe_missing_field:
  assumes "Blob (self rt) = [] \<or> Secret (self rt) = []"
  shows "\<exists>e. Subscribe rt = Inr ((None, Some e), rt)"
  using assms by (auto simp: Subscribe_def Let_def)

theorem subscribe_missing_field_witness:
  "Blob (self (idle\<lparr>self := app_client\<lparr>Blob := []\<rparr>\<rparr>)) = []
   \<and> Subscribe (idle\<lparr>self := app_client\<lparr>Blob := []\<rparr>\<rparr>) =
       Inr ((None, Some (errorString ''missing blob name'')),
            idle\<lparr>self := app_client\<lparr>Blob := []\<rparr>\<rparr>)
   \<and> Secret (self (idle\<lparr>self := app_client\<lparr>Secret := []\<rparr>\<rparr>)) = []
   \<and> Subscribe (idle\<lparr>self := app_client\<lparr>Secret := []\<rparr>\<rparr>) =
       Inr ((None, Some (errorString ''missing secret'')),
            idle\<lparr>self := app_client\<lparr>Secret := []\<rparr>\<rparr>)"
  using subscribe_missing_field [of "idle\<lparr>self := app_client\<lparr>Blob := []\<rparr>\<rparr>"]
    subscribe_missing_field [of "idle\<lparr>self := app_client\<lparr>Secret := []\<rparr>\<rparr>"]
  by (simp add: Subscribe_def idle_def app_client_def)

text \<open>
  C10. Whenever \<^verbatim>\<open>Subscribe\<close> returns an error, the error is one of its three, the
  channel returned is nil, and the runtime is as it was before the call: host and
  interval of the client have not been given their defaults, its ticker field is
  untouched, no ticker has been made and no goroutine started.
\<close>

theorem subscribe_error_changes_nothing:
  assumes "Subscribe rt = Inr ((ch, Some e), rt')"
  shows "rt' = rt \<and> ch = None
       \<and> Host (self rt') = Host (self rt) \<and> Interval (self rt') = Interval (self rt)
       \<and> ticker (self rt') = ticker (self rt) \<and> tickers rt' = tickers rt
       \<and> goroutines rt' = goroutines rt
       \<and> (e = errorString ''cannot re-subscribe with a closed Client''
            \<or> e = errorString ''missing blob name'' \<or> e = errorString ''missing secret'')"
  using assms by (auto simp: Subscribe_def Let_def split: if_splits)

theorem subscribe_error_changes_nothing_witness:
  "Subscribe live =
     Inr ((None, Some (errorString ''cannot re-subscribe with a closed Client'')), live)
   \<and> Host (self live) = ''https://api.viteset.com''
   \<and> goroutines live = [\<lparr>pc = Fetching, etag_var = None, chan = 0\<rparr>]"
proof -
  have s: "Subscribe live =
     Inr ((None, Some (errorString ''cannot re-subscribe with a closed Client'')), live)"
    by (simp add: Subscribe_def live_def subscribed_client_def)
  show ?thesis
    using subscribe_error_changes_nothing [OF s]
    by (simp add: s) (simp add: live_def subscribed_client_def)
qed

text \<open>
  C8. \<^verbatim>\<open>Cancel\<close> on a client that is not active changes nothing and does not panic.
  On any client \<^verbatim>\<open>Cancel\<close> returns without a panic, \<^verbatim>\<open>Active\<close> is false after it,
  and a second \<^verbatim>\<open>Cancel\<close> changes nothing.
\<close>

theorem cancel_inactive_noop:
  "(\<not> Active (self rt) \<longrightarrow> Cancel rt = Inr rt)
   \<and> (\<exists>rt'. Cancel rt = Inr rt' \<and> \<not> Active (self rt') \<and> Cancel rt' = Inr rt')"
  by (auto simp: Cancel_def Active_def split: option.splits)

theorem cancel_inactive_noop_witness:
  "\<not> Active (self idle) \<and> Cancel idle = Inr idle
   \<and> Active (self live) \<and> Cancel live = Inr canceled
   \<and> \<not> Active (self canceled) \<and> Cancel canceled = Inr canceled"
proof -
  have c: "Cancel live = Inr canceled"
    by (simp add: Cancel_def Active_def live_def canceled_def subscribed_client_def Stop_def)
  show ?thesis
    using cancel_inactive_noop [of idle] cancel_inactive_noop [of live]
      cancel_inactive_noop [of canceled]
    by (simp add: c) (simp add: Active_def idle_def live_def canceled_def app_client_def
        subscribed_client_def)
qed

text \<open>
  C2, the code at a client with blob name and secret set: \<^verbatim>\<open>Subscribe\<close> succeeds,
  \<^verbatim>\<open>Cancel\<close> sets the ticker field back to nil, and the second \<^verbatim>\<open>Subscribe\<close> passes
  the guard of line 41 and succeeds as well, with a second ticker, a second channel and
  a second goroutine; it returns no error.
\<close>

theorem resubscribe_after_cancel_succeeds:
  "Subscribe idle = Inr ((Some 0, None), live)
   \<and> Cancel live = Inr canceled
   \<and> Subscribe canceled = Inr ((Some 1, None), resubscribed)"
  by (simp add: Subscribe_def Cancel_def Active_def Stop_def idle_def live_def canceled_def
      resubscribed_def app_client_def subscribed_client_def DEFAULT_HOST_def
      DEFAULT_INTERVAL_def)

text \<open>The same on every client: after a successful \<^verbatim>\<open>Subscribe\<close> and a \<^verbatim>\<open>Cancel\<close>,
  \<^verbatim>\<open>Subscribe\<close> succeeds again.\<close>

lemma resubscribe_general:
  assumes "Subscribe rt = Inr ((Some ch, None), rt1)" and "Cancel rt1 = Inr rt2"
  shows "\<exists>ch' rt3. Subscribe rt2 = Inr ((Some ch', None), rt3)"
  using assms
  by (auto simp: Subscribe_def Cancel_def Active_def Let_def split: if_splits option.splits)

section \<open>Cancel while a fetch is in flight\<close>

lemma build_request_ticker:
  "build_request (c\<lparr>ticker := a\<rparr>) le net = build_request c le net"
  by (simp add: build_request_def Let_def split: sum.split option.split)

lemma fetch_ticker: "fetch (c\<lparr>ticker := a\<rparr>) le net = fetch c le net"
  by (simp add: fetch_def build_request_ticker)

text \<open>
  C3, the code on a schedule: \<^verbatim>\<open>Subscribe\<close> has started the goroutine, which is inside
  its first \<^verbatim>\<open>fetch\<close>; the caller calls \<^verbatim>\<open>Cancel\<close>, which returns with nothing
  received on the channel so far; the fetch then returns status 200 and the caller
  reads the channel: the Update with the fetched value is received, after \<^verbatim>\<open>Cancel\<close>
  returned. The goroutine then evaluates \<^verbatim>\<open>c.ticker.C\<close> on the nil ticker field and
  panics.
\<close>

theorem update_delivered_after_cancel:
  "Subscribe idle = Inr ((Some 0, None), live)
   \<and> exec [CallCancel] live = Inr canceled
   \<and> chans canceled = [[]]
   \<and> map_sum id chans
        (exec [FetchReturns 0 (reply 200 [(''ETag'', ''1'')] ''A''), Receive 0] canceled)
       = Inr [[\<lparr>Value = Some ''A'', Error = None\<rparr>]]
   \<and> exec [FetchReturns 0 (reply 200 [(''ETag'', ''1'')] ''A''), Receive 0, ReadTicker 0]
        canceled
       = Inl NilDereference"
proof -
  let ?net = "reply 200 [(''ETag'', ''1'')] ''A''"
  let ?r = "\<lparr>same = False, data = Some ''A'', etag = Some ''1'', err = None\<rparr>"
  let ?rt1 = "canceled\<lparr>goroutines := [\<lparr>pc = SendValue ?r, etag_var = None, chan = 0\<rparr>]\<rparr>"
  let ?rt2 = "canceled\<lparr>goroutines := [\<lparr>pc = AtTicker, etag_var = Some ''1'', chan = 0\<rparr>],
                chans := [[\<lparr>Value = Some ''A'', Error = None\<rparr>]],
                self := subscribed_client\<lparr>ticker := None, last := Some ''A''\<rparr>\<rparr>"
  have sub: "Subscribe idle = Inr ((Some 0, None), live)"
    by (simp add: Subscribe_def idle_def live_def app_client_def subscribed_client_def
        DEFAULT_HOST_def DEFAULT_INTERVAL_def)
  have can: "step CallCancel live = Inr canceled"
    by (simp add: step_def Cancel_def Active_def Stop_def live_def canceled_def
        subscribed_client_def)
  have f: "fetch (subscribed_client\<lparr>ticker := None\<rparr>) None ?net = ?r"
    by (simp add: fetch_ticker fetch_reply Header_Get_ETag canonical_names)
  have s1: "step (FetchReturns 0 ?net) canceled = Inr ?rt1"
    by (simp add: step_def canceled_def f move_def)
  have s2: "step (Receive 0) ?rt1 = Inr ?rt2"
    by (simp add: step_def canceled_def move_def deliver_def)
  have s3: "step (ReadTicker 0) ?rt2 = Inl NilDereference"
    by (simp add: step_def canceled_def)
  have c: "chans canceled = [[]]"
    by (simp add: canceled_def)
  show ?thesis
    by (simp add: sub can s1 s2 s3 c)
qed

section \<open>The two views of a pass agree\<close>

text \<open>
  When nobody calls \<^verbatim>\<open>Cancel\<close>, the reader receives and the ticker fires, the events
  of one pass of the goroutine leave the client, \<^verbatim>\<open>lastEtag\<close> and the channel as
  \<open>loop_body\<close> says, and the goroutine is inside \<^verbatim>\<open>fetch\<close> again.
\<close>

lemma pass_is_loop_body:
  assumes g: "goroutines rt = [\<lparr>pc = Fetching, etag_var = le, chan = 0\<rparr>]"
    and c: "chans rt = [xs]"
    and t: "ticker (self rt) = Some a" "a < length (tickers rt)" "\<not> stopped (tickers rt ! a)"
  shows "\<exists>rt'. exec [FetchReturns 0 net, Receive 0, ReadTicker 0, Tick 0] rt = Inr rt'
           \<and> pc (goroutines rt' ! 0) = Fetching
           \<and> \<lparr>client = self rt', lastEtag = etag_var (goroutines rt' ! 0), sent = chans rt' ! 0\<rparr>
               = loop_body net \<lparr>client = self rt, lastEtag = le, sent = xs\<rparr>"
proof -
  let ?r = "fetch (self rt) le net"
  show ?thesis
  proof (cases "err ?r")
    case (Some e)
    then show ?thesis
      using g c t by (simp add: step_def move_def deliver_def loop_body_def Let_def)
  next
    case None
    show ?thesis
    proof (cases "same ?r")
      case True
      with None show ?thesis
        using g c t by (simp add: step_def move_def deliver_def loop_body_def Let_def)
    next
      case False
      with None show ?thesis
        using g c t by (simp add: step_def move_def deliver_def loop_body_def Let_def)
    qed
  qed
qed

end
